theory Spec2Isabelle
  imports Main "HOL-Library.Product_Lexorder" "HOL-Library.Word"
begin

section \<open>Naive date-times (Python's \<open>datetime\<close>)\<close>

text \<open>
  The scripts only use naive \<open>datetime\<close> values: \<open>datetime.strptime\<close> without a zone
  directive, \<open>datetime.now()\<close>, \<open>datetime.fromtimestamp\<close> and the \<open>datetime(...)\<close>
  constructor. Python compares two naive values field by field, from the year down to the
  microsecond.
\<close>

record datetime =
  year :: nat
  month :: nat
  day :: nat
  hour :: nat
  minute :: nat
  second :: nat
  microsecond :: nat

definition dt_key :: "datetime \<Rightarrow> nat \<times> nat \<times> nat \<times> nat \<times> nat \<times> nat \<times> nat" where
  "dt_key d = (year d, month d, day d, hour d, minute d, second d, microsecond d)"

definition dt_le :: "datetime \<Rightarrow> datetime \<Rightarrow> bool" where
  "dt_le a b = (dt_key a \<le> dt_key b)"

definition dt_less :: "datetime \<Rightarrow> datetime \<Rightarrow> bool" where
  "dt_less a b = (dt_key a < dt_key b)"

definition is_leap :: "nat \<Rightarrow> bool" where
  "is_leap y = (y mod 4 = 0 \<and> (y mod 100 \<noteq> 0 \<or> y mod 400 = 0))"

definition days_in_month :: "nat \<Rightarrow> nat \<Rightarrow> nat" where
  "days_in_month y m =
     (if m = 2 then (if is_leap y then 29 else 28)
      else if m = 4 \<or> m = 6 \<or> m = 9 \<or> m = 11 then 30 else 31)"

text \<open>
  The constructor \<open>datetime(year, month, day, hour, minute, second, microsecond)\<close>. It raises
  \<open>ValueError\<close> outside the ranges below; the error is the value \<open>None\<close>.
\<close>

definition make_datetime :: "nat \<Rightarrow> nat \<Rightarrow> nat \<Rightarrow> nat \<Rightarrow> nat \<Rightarrow> nat \<Rightarrow> nat \<Rightarrow> datetime option" where
  "make_datetime Y m d H M S us =
     (if 1 \<le> Y \<and> Y \<le> 9999 \<and> 1 \<le> m \<and> m \<le> 12 \<and> 1 \<le> d \<and> d \<le> days_in_month Y m
         \<and> H < 24 \<and> M < 60 \<and> S < 60 \<and> us < 1000000
      then Some \<lparr>year = Y, month = m, day = d, hour = H, minute = M, second = S, microsecond = us\<rparr>
      else None)"

section \<open>\<open>datetime.strptime\<close> for the two formats of the scripts\<close>

text \<open>
  A text is a list of characters with code points below 256. In that range the regular
  expression class \<open>\d\<close> is the ten ASCII digits and \<open>\s\<close> is the code points
  9 to 13, 28 to 32, 133 and 160.

  \<open>strptime\<close> turns the format into a regular expression: \<open>%Y\<close> is \<open>\d\d\d\d\<close>,
  \<open>%m\<close> is \<open>1[0-2]|0[1-9]|[1-9]\<close>, \<open>%d\<close> is \<open>3[0-1]|[1-2]\d|0[1-9]|[1-9]| [1-9]\<close>,
  \<open>%H\<close> is \<open>2[0-3]|[0-1]\d|\d\<close>, \<open>%M\<close> is \<open>[0-5]\d|\d\<close>, \<open>%S\<close> is
  \<open>6[0-1]|[0-5]\d|\d\<close>, the blank of the format is \<open>\s+\<close>, and \<open>-\<close> and \<open>:\<close> stand for
  themselves. The expression is matched at the start of the text; the first match in
  backtracking order is taken, and text left over after it is an error. A matcher below
  returns every way its expression matches a prefix, in backtracking order, each with the
  value read and the rest of the text.
\<close>

definition is_digit :: "char \<Rightarrow> bool" where
  "is_digit c = (c \<in> set ''0123456789'')"

definition digit_val :: "char \<Rightarrow> nat" where
  "digit_val c = of_char c - 48"

definition in_range :: "char \<Rightarrow> char \<Rightarrow> char \<Rightarrow> bool" where
  "in_range lo hi c = (is_digit c \<and> digit_val lo \<le> digit_val c \<and> digit_val c \<le> digit_val hi)"

definition is_space :: "char \<Rightarrow> bool" where
  "is_space c = ((of_char c :: nat) \<in> {9, 10, 11, 12, 13, 28, 29, 30, 31, 32, 133, 160})"

fun rx2 :: "(char \<Rightarrow> bool) \<Rightarrow> (char \<Rightarrow> bool) \<Rightarrow> string \<Rightarrow> (nat \<times> string) list" where
  "rx2 P Q (a # b # r) = (if P a \<and> Q b then [(10 * digit_val a + digit_val b, r)] else [])"
| "rx2 P Q _ = []"

fun rx1 :: "(char \<Rightarrow> bool) \<Rightarrow> string \<Rightarrow> (nat \<times> string) list" where
  "rx1 P (a # r) = (if P a then [(digit_val a, r)] else [])"
| "rx1 P [] = []"

fun rx_blank_digit :: "string \<Rightarrow> (nat \<times> string) list" where
  "rx_blank_digit (a # b # r) =
     (if a = CHR '' '' \<and> in_range CHR ''1'' CHR ''9'' b then [(digit_val b, r)] else [])"
| "rx_blank_digit _ = []"

fun rx_lit :: "char \<Rightarrow> string \<Rightarrow> string list" where
  "rx_lit c (a # r) = (if a = c then [r] else [])"
| "rx_lit c [] = []"

fun rx_spaces :: "string \<Rightarrow> string list" where
  "rx_spaces [] = []"
| "rx_spaces (a # r) = (if is_space a then rx_spaces r @ [r] else [])"

fun rx_Y :: "string \<Rightarrow> (nat \<times> string) list" where
  "rx_Y (a # b # c # d # r) =
     (if is_digit a \<and> is_digit b \<and> is_digit c \<and> is_digit d
      then [(1000 * digit_val a + 100 * digit_val b + 10 * digit_val c + digit_val d, r)]
      else [])"
| "rx_Y _ = []"

definition rx_m :: "string \<Rightarrow> (nat \<times> string) list" where
  "rx_m s = rx2 (\<lambda>c. c = CHR ''1'') (in_range CHR ''0'' CHR ''2'') s
          @ rx2 (\<lambda>c. c = CHR ''0'') (in_range CHR ''1'' CHR ''9'') s
          @ rx1 (in_range CHR ''1'' CHR ''9'') s"

definition rx_d :: "string \<Rightarrow> (nat \<times> string) list" where
  "rx_d s = rx2 (\<lambda>c. c = CHR ''3'') (in_range CHR ''0'' CHR ''1'') s
          @ rx2 (in_range CHR ''1'' CHR ''2'') is_digit s
          @ rx2 (\<lambda>c. c = CHR ''0'') (in_range CHR ''1'' CHR ''9'') s
          @ rx1 (in_range CHR ''1'' CHR ''9'') s
          @ rx_blank_digit s"

definition rx_H :: "string \<Rightarrow> (nat \<times> string) list" where
  "rx_H s = rx2 (\<lambda>c. c = CHR ''2'') (in_range CHR ''0'' CHR ''3'') s
          @ rx2 (in_range CHR ''0'' CHR ''1'') is_digit s
          @ rx1 is_digit s"

definition rx_M :: "string \<Rightarrow> (nat \<times> string) list" where
  "rx_M s = rx2 (in_range CHR ''0'' CHR ''5'') is_digit s @ rx1 is_digit s"

definition rx_S :: "string \<Rightarrow> (nat \<times> string) list" where
  "rx_S s = rx2 (\<lambda>c. c = CHR ''6'') (in_range CHR ''0'' CHR ''1'') s
          @ rx2 (in_range CHR ''0'' CHR ''5'') is_digit s
          @ rx1 is_digit s"

text \<open>The expression of \<open>"%Y-%m-%d"\<close>.\<close>

definition rx_date :: "string \<Rightarrow> ((nat \<times> nat \<times> nat) \<times> string) list" where
  "rx_date s =
     [((Y, m, d), r).
        (Y, s1) \<leftarrow> rx_Y s, s2 \<leftarrow> rx_lit CHR ''-'' s1,
        (m, s3) \<leftarrow> rx_m s2, s4 \<leftarrow> rx_lit CHR ''-'' s3,
        (d, r) \<leftarrow> rx_d s4]"

text \<open>The expression of \<open>DATETIME_FORMAT = "%Y-%m-%d %H:%M:%S"\<close>.\<close>

definition rx_datetime :: "string \<Rightarrow> ((nat \<times> nat \<times> nat \<times> nat \<times> nat \<times> nat) \<times> string) list" where
  "rx_datetime s =
     [((Y, m, d, H, M, S), r).
        ((Y, m, d), s1) \<leftarrow> rx_date s, s2 \<leftarrow> rx_spaces s1,
        (H, s3) \<leftarrow> rx_H s2, s4 \<leftarrow> rx_lit CHR '':'' s3,
        (M, s5) \<leftarrow> rx_M s4, s6 \<leftarrow> rx_lit CHR '':'' s5,
        (S, r) \<leftarrow> rx_S s6]"

text \<open>\<open>datetime.strptime(txt, "%Y-%m-%d")\<close>; \<open>None\<close> is \<open>ValueError\<close>.\<close>

definition strptime_date :: "string \<Rightarrow> datetime option" where
  "strptime_date txt =
     (case rx_date txt of
        [] \<Rightarrow> None
      | ((Y, m, d), r) # _ \<Rightarrow> if r \<noteq> [] then None else make_datetime Y m d 0 0 0 0)"

text \<open>\<open>datetime.strptime(txt, DATETIME_FORMAT)\<close>; \<open>None\<close> is \<open>ValueError\<close>.\<close>

definition strptime_datetime :: "string \<Rightarrow> datetime option" where
  "strptime_datetime txt =
     (case rx_datetime txt of
        [] \<Rightarrow> None
      | ((Y, m, d, H, M, S), r) # _ \<Rightarrow> if r \<noteq> [] then None else make_datetime Y m d H M S 0)"

section \<open>Get\_Attendance\_By\_Time.py: resolving a record's time\<close>

text \<open>
  The fallback expression \<open>\d{4}-\d{2}-\d{2} \d{2}:\d{2}:\d{2}\<close> of \<open>collect_records\<close>,
  as one character class for each of its 19 positions.
\<close>

definition stamp_pattern :: "(char \<Rightarrow> bool) list" where
  "stamp_pattern =
     [is_digit, is_digit, is_digit, is_digit, (\<lambda>c. c = CHR ''-''),
      is_digit, is_digit, (\<lambda>c. c = CHR ''-''),
      is_digit, is_digit, (\<lambda>c. c = CHR '' ''),
      is_digit, is_digit, (\<lambda>c. c = CHR '':''),
      is_digit, is_digit, (\<lambda>c. c = CHR '':''),
      is_digit, is_digit]"

definition stamp_shape :: "string \<Rightarrow> bool" where
  "stamp_shape m = list_all2 (\<lambda>p c. p c) stamp_pattern m"

definition stamp_here :: "string \<Rightarrow> bool" where
  "stamp_here s = stamp_shape (take 19 s)"

text \<open>\<open>re.search\<close> with that expression: the leftmost match, as \<open>m.group(0)\<close>.\<close>

fun re_search :: "string \<Rightarrow> string option" where
  "re_search [] = None"
| "re_search (c # cs) = (if stamp_here (c # cs) then Some (take 19 (c # cs)) else re_search cs)"

text \<open>
  Lines 76 to 85 of \<open>collect_records\<close>: \<open>rec_dt\<close> from the record's timestamp text.
\<close>

definition rec_dt_of_text :: "string \<Rightarrow> datetime option" where
  "rec_dt_of_text timestamp_str =
     (case strptime_datetime timestamp_str of
        Some d \<Rightarrow> Some d
      | None \<Rightarrow>
          (case re_search timestamp_str of
             Some m \<Rightarrow> strptime_datetime m
           | None \<Rightarrow> None))"

section \<open>Get\_Attendance\_By\_Time.py: the ledger node and what a run does\<close>

text \<open>
  The node's answers during one run of the script. \<open>None\<close> (or \<open>Inl\<close>) stands for a call
  that raises. \<open>getRecord\<close> answers with the raw value of \<open>getRecord(i).call()\<close>, a
  sequence of strings that unpacks into \<open>name, timestamp_str, hash_value\<close> when it has
  three members. A transaction's \<open>to\<close> is the value of its 20-byte address;
  \<open>Web3.to_checksum_address\<close> changes only how an address is written, so two checksummed
  addresses are equal when their values are.
\<close>

datatype call_error = BadFunctionCallOutput | OtherError

record tx =
  to :: "nat option"
  input :: string

record block =
  block_timestamp :: int
  block_transactions :: "tx list"

record node =
  is_connected :: bool
  get_code :: "string option"
  totalRecords :: "call_error + nat"
  getRecord :: "nat \<Rightarrow> string list option"
  block_number :: "int option"
  get_block :: "int \<Rightarrow> block option"

text \<open>
  What the script does that can be observed: the requests it sends to the node and the
  warning lines \<open>collect_records\<close> prints, in the order they happen.
\<close>

datatype event =
    RpcIsConnected
  | RpcChainId
  | RpcGetCode
  | RpcTotalRecords
  | RpcBlockNumber
  | RpcGetBlock int
  | RpcGetRecord nat
  | PrintFetchError nat
  | PrintDebugRaw nat
  | PrintBadShape nat
  | PrintSkip nat
  | PrintDebugFull nat

text \<open>
  A dictionary appended to \<open>records\<close> or \<open>invalid_records\<close>: \<open>Rec i name timestamp hash\<close>
  has the four keys \<open>index\<close>, \<open>name\<close>, \<open>timestamp\<close>, \<open>hash\<close>; \<open>BadShape i raw\<close> is the
  one with \<open>None\<close> for the three fields and the key \<open>raw\<close>.
\<close>

datatype out_rec =
    Rec nat string string string
  | BadShape nat "string list"

fun index :: "out_rec \<Rightarrow> nat" where
  "index (Rec i _ _ _) = i"
| "index (BadShape i _) = i"

record collect_state =
  records :: "out_rec list"
  invalid_records :: "out_rec list"
  printed :: "event list"

definition emit :: "event \<Rightarrow> collect_state \<Rightarrow> collect_state" where
  "emit e st = st\<lparr>printed := printed st @ [e]\<rparr>"

text \<open>
  Lines 87 to 89: an entry of \<open>block_time_map\<close> for the index replaces the parsed time.
  \<open>None\<close> and the empty dictionary are both false in \<open>if block_time_map and ...\<close>.
\<close>

definition resolved_time :: "(nat \<rightharpoonup> datetime) option \<Rightarrow> nat \<Rightarrow> string \<Rightarrow> datetime option" where
  "resolved_time block_time_map i timestamp_str =
     (case block_time_map of
        None \<Rightarrow> rec_dt_of_text timestamp_str
      | Some m \<Rightarrow> (case m i of Some t \<Rightarrow> Some t | None \<Rightarrow> rec_dt_of_text timestamp_str))"

text \<open>
  The assignment \<open>name, timestamp_str, hash_value = raw\<close>: it raises unless \<open>raw\<close> has
  exactly three members.
\<close>

fun unpack3 :: "string list \<Rightarrow> (string \<times> string \<times> string) option" where
  "unpack3 [name, timestamp_str, hash_value] = Some (name, timestamp_str, hash_value)"
| "unpack3 _ = None"

text \<open>One pass of the body of \<open>for i in range(total)\<close> in \<open>collect_records\<close>.\<close>

definition collect_step ::
  "node \<Rightarrow> datetime \<Rightarrow> datetime \<Rightarrow> bool \<Rightarrow> bool \<Rightarrow> (nat \<rightharpoonup> datetime) option
     \<Rightarrow> nat \<Rightarrow> collect_state \<Rightarrow> collect_state" where
  "collect_step nd start_dt end_dt debug include_invalid block_time_map i st0 =
     (let st = emit (RpcGetRecord i) st0 in
      case getRecord nd i of
        None \<Rightarrow> emit (PrintFetchError i) st
      | Some raw \<Rightarrow>
          (let st1 = (if debug then emit (PrintDebugRaw i) st else st) in
           case unpack3 raw of
             None \<Rightarrow>
               (let st2 = emit (PrintBadShape i) st1
                in if include_invalid
                   then st2\<lparr>invalid_records := invalid_records st2 @ [BadShape i raw]\<rparr>
                   else st2)
           | Some (name, timestamp_str, hash_value) \<Rightarrow>
               (case resolved_time block_time_map i timestamp_str of
                  None \<Rightarrow>
                    (let st2 = emit (PrintSkip i) st1;
                         st3 = (if debug then emit (PrintDebugFull i) st2 else st2)
                     in if include_invalid
                        then st3\<lparr>invalid_records :=
                                 invalid_records st3 @ [Rec i name timestamp_str hash_value]\<rparr>
                        else st3)
                | Some rec_dt \<Rightarrow>
                    if dt_le start_dt rec_dt \<and> dt_le rec_dt end_dt
                    then st1\<lparr>records := records st1 @ [Rec i name timestamp_str hash_value]\<rparr>
                    else st1)))"

text \<open>
  \<open>collect_records\<close>: \<open>Inl\<close> when \<open>totalRecords().call()\<close> raises (the exception leaves the
  function), else the state after the loop over \<open>range(total)\<close> (\<open>n_total\<close> is the source's \<open>total\<close>). The function returns
  \<open>(records, invalid_records)\<close> of that state.
\<close>

definition collect_records ::
  "node \<Rightarrow> datetime \<Rightarrow> datetime \<Rightarrow> bool \<Rightarrow> bool \<Rightarrow> (nat \<rightharpoonup> datetime) option
     \<Rightarrow> call_error + collect_state" where
  "collect_records nd start_dt end_dt debug include_invalid block_time_map =
     (case totalRecords nd of
        Inl e \<Rightarrow> Inl e
      | Inr n_total \<Rightarrow>
          Inr (fold (collect_step nd start_dt end_dt debug include_invalid block_time_map)
                 [0..<n_total]
                 \<lparr>records = [], invalid_records = [], printed = [RpcTotalRecords]\<rparr>))"

section \<open>Get\_Attendance\_By\_Time.py: block times (lines 211 to 243 of \<open>main\<close>)\<close>

text \<open>
  \<open>decode\<close> is \<open>contract.decode_function_input\<close> on a transaction's input: the name of the
  decoded function, or \<open>None\<close> when decoding raises. \<open>fromtimestamp\<close> is
  \<open>datetime.fromtimestamp\<close>, which depends on the local time zone and raises on a value out
  of range. \<open>--to-block\<close> is \<open>latest\<close>, or a text that \<open>int\<close> converts, or one it rejects.
\<close>

datatype to_block_arg = Latest | BlockNumber int | NotANumber

definition tx_is_log :: "(string \<Rightarrow> string option) \<Rightarrow> nat \<Rightarrow> tx \<Rightarrow> bool" where
  "tx_is_log decode checksum_address t =
     (case to t of
        None \<Rightarrow> False
      | Some a \<Rightarrow> a = checksum_address \<and> decode (input t) = Some ''logAttendance'')"

text \<open>
  The inner loop \<open>for tx in block.transactions\<close>, on the pair of \<open>block_time_map\<close> and
  \<open>current_index\<close>; \<open>None\<close> when \<open>datetime.fromtimestamp\<close> raises.
\<close>

fun scan_txs ::
  "(string \<Rightarrow> string option) \<Rightarrow> (int \<Rightarrow> datetime option) \<Rightarrow> nat \<Rightarrow> int \<Rightarrow> tx list
     \<Rightarrow> (nat \<rightharpoonup> datetime) \<times> nat \<Rightarrow> ((nat \<rightharpoonup> datetime) \<times> nat) option" where
  "scan_txs decode fromtimestamp ca ts [] (m, current_index) = Some (m, current_index)"
| "scan_txs decode fromtimestamp ca ts (t # rest) (m, current_index) =
     (if tx_is_log decode ca t
      then (case fromtimestamp ts of
              None \<Rightarrow> None
            | Some dt \<Rightarrow>
                scan_txs decode fromtimestamp ca ts rest (m(current_index \<mapsto> dt), Suc current_index))
      else scan_txs decode fromtimestamp ca ts rest (m, current_index))"

text \<open>
  The outer loop \<open>for b in range(from_block, int(to_block) + 1)\<close>, with the requests made
  so far; \<open>None\<close> when \<open>get_block\<close> or the inner loop raises.
\<close>

fun scan_blocks ::
  "node \<Rightarrow> (string \<Rightarrow> string option) \<Rightarrow> (int \<Rightarrow> datetime option) \<Rightarrow> nat \<Rightarrow> int list
     \<Rightarrow> (nat \<rightharpoonup> datetime) \<times> nat \<Rightarrow> ((nat \<rightharpoonup> datetime) \<times> nat) option \<times> event list" where
  "scan_blocks nd decode fromtimestamp ca [] st = (Some st, [])"
| "scan_blocks nd decode fromtimestamp ca (b # bs) st =
     (case get_block nd b of
        None \<Rightarrow> (None, [RpcGetBlock b])
      | Some blk \<Rightarrow>
          (case scan_txs decode fromtimestamp ca (block_timestamp blk) (block_transactions blk) st of
             None \<Rightarrow> (None, [RpcGetBlock b])
           | Some st' \<Rightarrow>
               (let (r, evs) = scan_blocks nd decode fromtimestamp ca bs st'
                in (r, RpcGetBlock b # evs))))"

text \<open>
  The whole \<open>try\<close> block: the mapping, or \<open>None\<close> when anything in it raised
  (\<open>block_time_map = None\<close> in the handler).
\<close>

definition build_block_time_map ::
  "node \<Rightarrow> (string \<Rightarrow> string option) \<Rightarrow> (int \<Rightarrow> datetime option) \<Rightarrow> nat \<Rightarrow> int \<Rightarrow> to_block_arg
     \<Rightarrow> (nat \<rightharpoonup> datetime) option \<times> event list" where
  "build_block_time_map nd decode fromtimestamp ca from_block to_block =
     (case to_block of
        NotANumber \<Rightarrow> (None, [])
      | BlockNumber n \<Rightarrow>
          (let (r, evs) = scan_blocks nd decode fromtimestamp ca [from_block..n] (Map.empty, 0)
           in (map_option fst r, evs))
      | Latest \<Rightarrow>
          (case block_number nd of
             None \<Rightarrow> (None, [RpcBlockNumber])
           | Some n \<Rightarrow>
               (let (r, evs) = scan_blocks nd decode fromtimestamp ca [from_block..n] (Map.empty, 0)
                in (map_option fst r, RpcBlockNumber # evs))))"

section \<open>Get\_Attendance\_By\_Time.py: \<open>parse_time\<close> and \<open>main\<close>\<close>

text \<open>\<open>parse_time\<close>; \<open>None\<close> is the \<open>ValueError\<close> it lets through.\<close>

definition parse_time :: "string \<Rightarrow> datetime option" where
  "parse_time txt =
     (case strptime_datetime txt of
        Some d \<Rightarrow> Some d
      | None \<Rightarrow> strptime_date txt)"

text \<open>
  The command line after \<open>argparse\<close>. An option that was not given is \<open>None\<close>; the tests
  \<open>if args.date\<close>, \<open>if not args.start\<close> and \<open>if args.end\<close> also take the empty text for
  absent, which \<open>given\<close> does.
\<close>

record args =
  start_arg :: "string option"
  end_arg :: "string option"
  date_arg :: "string option"
  debug_arg :: bool
  include_invalid_arg :: bool
  use_block_times_arg :: bool
  from_block_arg :: int
  to_block_arg :: to_block_arg

definition given :: "string option \<Rightarrow> string option" where
  "given a = (case a of None \<Rightarrow> None | Some s \<Rightarrow> if s = [] then None else Some s)"

text \<open>
  How a run of \<open>main\<close> ends: \<open>ArgumentError\<close> is \<open>parser.error\<close> (the message, then exit
  status 2), \<open>Uncaught\<close> an exception nothing handles, the others the early \<open>return\<close>s and
  the normal end with \<open>results\<close> and \<open>invalid_records\<close>.
\<close>

datatype outcome =
    ArgumentError string
  | Uncaught
  | NotConnected
  | AbiNotLoaded
  | NoContractCode
  | BadCall
  | UnexpectedError
  | Completed "out_rec list" "out_rec list"

text \<open>
  Lines 149 to 167: \<open>start_dt\<close> and \<open>end_dt\<close> as the arguments give them, or the way the
  run ends before they are known.
\<close>

definition parse_window :: "args \<Rightarrow> datetime \<Rightarrow> outcome + datetime \<times> datetime" where
  "parse_window a now =
     (case given (date_arg a) of
        Some date \<Rightarrow>
          if given (start_arg a) \<noteq> None \<or> given (end_arg a) \<noteq> None
          then Inl (ArgumentError ''--date cannot be used with --start or --end; pick one approach'')
          else (case strptime_date date of
                  None \<Rightarrow> Inl (ArgumentError ''Invalid --date format: use YYYY-MM-DD.'')
                | Some day_dt \<Rightarrow>
                    Inr (\<lparr>year = year day_dt, month = month day_dt, day = day day_dt,
                          hour = 0, minute = 0, second = 0, microsecond = 0\<rparr>,
                         \<lparr>year = year day_dt, month = month day_dt, day = day day_dt,
                          hour = 23, minute = 59, second = 59, microsecond = 0\<rparr>))
      | None \<Rightarrow>
          (case given (start_arg a) of
             None \<Rightarrow> Inl (ArgumentError ''--start is required unless --date is provided'')
           | Some s \<Rightarrow>
               (case parse_time s of
                  None \<Rightarrow> Inl Uncaught
                | Some start_dt \<Rightarrow>
                    (case given (end_arg a) of
                       None \<Rightarrow> Inr (start_dt, now)
                     | Some e \<Rightarrow>
                         (case parse_time e of
                            None \<Rightarrow> Inl Uncaught
                          | Some end_dt \<Rightarrow> Inr (start_dt, end_dt))))))"

text \<open>Lines 169 and 170 after them: the window \<open>main\<close> goes on with.\<close>

definition resolve_window :: "args \<Rightarrow> datetime \<Rightarrow> outcome + datetime \<times> datetime" where
  "resolve_window a now =
     (case parse_window a now of
        Inl e \<Rightarrow> Inl e
      | Inr (start_dt, end_dt) \<Rightarrow>
          if dt_less end_dt start_dt
          then Inl (ArgumentError ''--end cannot be earlier than --start'')
          else Inr (start_dt, end_dt))"

text \<open>
  What \<open>main\<close> needs besides the command line: the clock, the node behind \<open>--rpc\<close>, whether
  the ABI file loads, the value of \<open>--contract\<close> as an address (\<open>None\<close> when
  \<open>to_checksum_address\<close> rejects it), and the two library functions of the block scan.
\<close>

record env =
  now :: datetime
  the_node :: node
  abi_loads :: bool
  contract_address :: "nat option"
  decode_function_input :: "string \<Rightarrow> string option"
  fromtimestamp :: "int \<Rightarrow> datetime option"

text \<open>
  \<open>main\<close>, from the parsed arguments to the end of \<open>collect_records\<close>, with the requests
  sent to the node and the warnings printed. Printing the results and the optional
  \<open>--save\<close> send nothing to the node and do not change \<open>results\<close>.
\<close>

definition main :: "args \<Rightarrow> env \<Rightarrow> outcome \<times> event list" where
  "main a e =
     (case resolve_window a (now e) of
        Inl out \<Rightarrow> (out, [])
      | Inr (start_dt, end_dt) \<Rightarrow>
          (let nd = the_node e in
           if \<not> is_connected nd then (NotConnected, [RpcIsConnected])
           else if \<not> abi_loads e then (AbiNotLoaded, [RpcIsConnected])
           else
             (case contract_address e of
                None \<Rightarrow> (Uncaught, [RpcIsConnected])
              | Some ca \<Rightarrow>
                  (let evs = [RpcIsConnected, RpcChainId, RpcGetCode] in
                   if (case get_code nd of None \<Rightarrow> False | Some code \<Rightarrow> code = [] \<or> code = ''0x'')
                   then (NoContractCode, evs)
                   else
                     (let (block_time_map, evs2) =
                            (if use_block_times_arg a
                             then build_block_time_map nd (decode_function_input e) (fromtimestamp e)
                                    ca (from_block_arg a) (to_block_arg a)
                             else (None, []))
                      in case collect_records nd start_dt end_dt (debug_arg a)
                                (include_invalid_arg a) block_time_map of
                           Inl BadFunctionCallOutput \<Rightarrow>
                             (BadCall, evs @ [RpcTotalRecords] @ evs2 @ [RpcTotalRecords])
                         | Inl OtherError \<Rightarrow>
                             (UnexpectedError, evs @ [RpcTotalRecords] @ evs2 @ [RpcTotalRecords])
                         | Inr st \<Rightarrow>
                             (Completed (records st) (invalid_records st),
                              evs @ [RpcTotalRecords] @ evs2 @ printed st))))))"

section \<open>\<open>hashlib.sha256(text.encode()).hexdigest()\<close>\<close>

text \<open>
  SHA-256 (FIPS 180-4) on the UTF-8 bytes of a text, written as 64 lower-case hexadecimal
  digits. A byte is a number below 256; a word has 32 bits and its addition wraps.
\<close>

type_synonym w32 = "32 word"

definition rotr :: "nat \<Rightarrow> w32 \<Rightarrow> w32" where
  "rotr n x = or (drop_bit n x) (push_bit (32 - n) x)"

definition Ch :: "w32 \<Rightarrow> w32 \<Rightarrow> w32 \<Rightarrow> w32" where
  "Ch x y z = xor (and x y) (and (not x) z)"

definition Maj :: "w32 \<Rightarrow> w32 \<Rightarrow> w32 \<Rightarrow> w32" where
  "Maj x y z = xor (xor (and x y) (and x z)) (and y z)"

definition Sigma0 :: "w32 \<Rightarrow> w32" where
  "Sigma0 x = xor (xor (rotr 2 x) (rotr 13 x)) (rotr 22 x)"

definition Sigma1 :: "w32 \<Rightarrow> w32" where
  "Sigma1 x = xor (xor (rotr 6 x) (rotr 11 x)) (rotr 25 x)"

definition sigma0 :: "w32 \<Rightarrow> w32" where
  "sigma0 x = xor (xor (rotr 7 x) (rotr 18 x)) (drop_bit 3 x)"

definition sigma1 :: "w32 \<Rightarrow> w32" where
  "sigma1 x = xor (xor (rotr 17 x) (rotr 19 x)) (drop_bit 10 x)"

text \<open>
  The round constants are the first 32 bits of the fractional parts of the cube roots of
  the first 64 primes (the 64th is 311), the initial hash value those of the square roots
  of the first 8. \<open>iroot k n\<close> is the largest integer whose \<open>k\<close>-th power is at most \<open>n\<close>,
  found by bisection.
\<close>

definition is_prime :: "int \<Rightarrow> bool" where
  "is_prime p = (1 < p \<and> list_all (\<lambda>d. p mod d \<noteq> 0) [2..p - 1])"

definition primes64 :: "int list" where
  "primes64 = take 64 (filter is_prime [2..311])"

function iroot_between :: "nat \<Rightarrow> int \<Rightarrow> int \<Rightarrow> int \<Rightarrow> int" where
  "iroot_between k n lo hi =
     (if hi \<le> lo + 1 then lo
      else (let mid = (lo + hi) div 2
            in if mid ^ k \<le> n then iroot_between k n mid hi else iroot_between k n lo mid))"
  by pat_completeness auto
termination
  by (relation "measure (\<lambda>(k, n, lo, hi). nat (hi - lo))") auto

definition iroot :: "nat \<Rightarrow> int \<Rightarrow> int" where
  "iroot k n = iroot_between k n 0 (n + 1)"

definition K256 :: "w32 list" where
  "K256 = map (\<lambda>p. word_of_int (iroot 3 (p * 2 ^ 96))) primes64"

definition H256 :: "w32 list" where
  "H256 = map (\<lambda>p. word_of_int (iroot 2 (p * 2 ^ 64))) (take 8 primes64)"

text \<open>The message schedule, the newest word first: \<open>n\<close> more words after the given ones.\<close>

fun extend :: "nat \<Rightarrow> w32 list \<Rightarrow> w32 list" where
  "extend 0 w = w"
| "extend (Suc n) w = extend n ((sigma1 (w ! 1) + w ! 6 + sigma0 (w ! 14) + w ! 15) # w)"

fun round256 :: "w32 list \<Rightarrow> w32 \<times> w32 \<Rightarrow> w32 list" where
  "round256 [a, b, c, d, e, f, g, h] (k, w) =
     (let t1 = h + Sigma1 e + Ch e f g + k + w; t2 = Sigma0 a + Maj a b c
      in [t1 + t2, a, b, c, d + t1, e, f, g])"
| "round256 s _ = s"

definition compress :: "w32 list \<Rightarrow> w32 list \<Rightarrow> w32 list" where
  "compress hs blk =
     map2 (+) hs (fold (\<lambda>kw s. round256 s kw) (zip K256 (rev (extend 48 (rev blk)))) hs)"

fun be32 :: "nat list \<Rightarrow> w32 list" where
  "be32 (a # b # c # d # r) =
     (((of_nat a * 256 + of_nat b) * 256 + of_nat c) * 256 + of_nat d) # be32 r"
| "be32 _ = []"

fun bytes_be :: "nat \<Rightarrow> nat \<Rightarrow> nat list" where
  "bytes_be 0 n = []"
| "bytes_be (Suc k) n = bytes_be k (n div 256) @ [n mod 256]"

definition pad :: "nat list \<Rightarrow> nat list" where
  "pad bs = bs @ [128] @ replicate ((119 - length bs mod 64) mod 64) 0
              @ bytes_be 8 (8 * length bs)"

function blocks :: "w32 list \<Rightarrow> w32 list list" where
  "blocks ws = (if length ws < 16 then [] else take 16 ws # blocks (drop 16 ws))"
  by pat_completeness auto
termination
  by (relation "measure length") auto

definition sha256 :: "nat list \<Rightarrow> w32 list" where
  "sha256 bs = fold (\<lambda>b hs. compress hs b) (blocks (be32 (pad bs))) H256"

definition hex_digit :: "nat \<Rightarrow> char" where
  "hex_digit n = ''0123456789abcdef'' ! n"

definition hex32 :: "w32 \<Rightarrow> string" where
  "hex32 w = map (\<lambda>i. hex_digit (unat (and (drop_bit (4 * i) w) 15))) [7, 6, 5, 4, 3, 2, 1, 0]"

definition encode :: "string \<Rightarrow> nat list" where
  "encode s =
     concat (map (\<lambda>c. let n = of_char c in
                       if n < 128 then [n] else [192 + n div 64, 128 + n mod 64]) s)"

definition sha256_hexdigest :: "string \<Rightarrow> string" where
  "sha256_hexdigest s = concat (map hex32 (sha256 (encode s)))"

section \<open>face\_attendance.py: writing to the ledger\<close>

text \<open>
  How the node, the contract binding and the signer answer one write attempt; \<open>None\<close> and
  \<open>False\<close> stand for a call that raises. \<open>send_raw_transaction\<close> answers with the
  transaction hash, \<open>wait_for_transaction_receipt\<close> with \<open>transactionHash.hex()\<close> of the
  receipt.
\<close>

record chain =
  get_transaction_count :: "nat option"
  chain_id :: "nat option"
  estimate_gas :: "nat option"
  build_transaction :: bool
  sign_transaction :: bool
  send_raw_transaction :: "string option"
  wait_for_transaction_receipt :: "string option"

text \<open>
  The calls of one write attempt in the order they are made. The three calls on
  \<open>contract.functions.logAttendance(name, timestamp, hash_str)\<close> carry its arguments;
  \<open>SendRawTransaction\<close> carries those of the transaction that was signed.
\<close>

datatype wevent =
    GetTransactionCount
  | GetChainId
  | EstimateGas string string string
  | BuildTransaction string string string
  | SignTransaction
  | SendRawTransaction string string string
  | WaitForReceipt

text \<open>
  The keyword arguments \<open>web3\<close>, \<open>contract\<close>, \<open>account_address\<close> and \<open>private_key\<close>: the
  first two are objects or \<open>None\<close>, the others texts or \<open>None\<close>.
\<close>

record conn =
  web3 :: bool
  contract :: bool
  account_address :: "string option"
  private_key :: "string option"

definition hash_str :: "string \<Rightarrow> string \<Rightarrow> string" where
  "hash_str name timestamp = sha256_hexdigest (name @ ''-'' @ timestamp)"

text \<open>
  \<open>save_to_blockchain\<close> of face\_attendance.py: the pair it returns
  (\<open>(True, tx)\<close> or \<open>(False, None)\<close>) and the calls it made.
\<close>

definition save_to_blockchain ::
  "string \<Rightarrow> string \<Rightarrow> conn \<Rightarrow> chain \<Rightarrow> (bool \<times> string option) \<times> wevent list" where
  "save_to_blockchain name timestamp c ch =
     (let h = hash_str name timestamp in
      if web3 c \<and> contract c \<and> given (private_key c) \<noteq> None \<and> given (account_address c) \<noteq> None
      then
        (case get_transaction_count ch of
           None \<Rightarrow> ((False, None), [GetTransactionCount])
         | Some nonce \<Rightarrow>
        (case chain_id ch of
           None \<Rightarrow> ((False, None), [GetTransactionCount, GetChainId])
         | Some cid \<Rightarrow>
        (case estimate_gas ch of
           None \<Rightarrow> ((False, None), [GetTransactionCount, GetChainId, EstimateGas name timestamp h])
         | Some gas \<Rightarrow>
        if \<not> build_transaction ch
        then ((False, None),
              [GetTransactionCount, GetChainId, EstimateGas name timestamp h,
               BuildTransaction name timestamp h])
        else if \<not> sign_transaction ch
        then ((False, None),
              [GetTransactionCount, GetChainId, EstimateGas name timestamp h,
               BuildTransaction name timestamp h, SignTransaction])
        else
        (case send_raw_transaction ch of
           None \<Rightarrow>
             ((False, None),
              [GetTransactionCount, GetChainId, EstimateGas name timestamp h,
               BuildTransaction name timestamp h, SignTransaction,
               SendRawTransaction name timestamp h])
         | Some tx_hash \<Rightarrow>
        (case wait_for_transaction_receipt ch of
           None \<Rightarrow>
             ((False, None),
              [GetTransactionCount, GetChainId, EstimateGas name timestamp h,
               BuildTransaction name timestamp h, SignTransaction,
               SendRawTransaction name timestamp h, WaitForReceipt])
         | Some receipt_hash \<Rightarrow>
             ((True, Some receipt_hash),
              [GetTransactionCount, GetChainId, EstimateGas name timestamp h,
               BuildTransaction name timestamp h, SignTransaction,
               SendRawTransaction name timestamp h, WaitForReceipt]))))))
      else ((False, None), []))"

text \<open>
  One face of one frame: the identity \<open>match_face\<close> returned for it (or \<open>None\<close>), the text
  that \<open>datetime.now().strftime(...)\<close> gives when it is handled, and how the chain answers
  a write made at that moment.
\<close>

record detection =
  matched :: "string option"
  clock :: string
  chain_now :: chain

text \<open>The state of the capture loop: \<open>logged_today\<close> and the calls made so far.\<close>

record session =
  logged_today :: "string set"
  sent :: "wevent list"

definition no_conn :: conn where
  "no_conn = \<lparr>web3 = False, contract = False, account_address = None, private_key = None\<rparr>"

text \<open>
  The body of \<open>for face in faces\<close> in \<open>capture_and_log\<close>, lines 160 to 175. \<open>if name\<close> is
  false for \<open>None\<close> and for the empty text.
\<close>

definition log_face :: "bool \<Rightarrow> conn \<Rightarrow> detection \<Rightarrow> session \<Rightarrow> session" where
  "log_face send_to_chain c d s =
     (case given (matched d) of
        None \<Rightarrow> s
      | Some name \<Rightarrow>
          if name \<in> logged_today s then s
          else if send_to_chain
          then (let ((success, tx_hash), evs) = save_to_blockchain name (clock d) c (chain_now d)
                in if success
                   then s\<lparr>logged_today := insert name (logged_today s), sent := sent s @ evs\<rparr>
                   else s\<lparr>logged_today := insert name (logged_today s), sent := sent s @ evs\<rparr>)
          else (let (r, evs) = save_to_blockchain name (clock d) no_conn (chain_now d)
                in s\<lparr>logged_today := insert name (logged_today s), sent := sent s @ evs\<rparr>))"

text \<open>
  \<open>capture_and_log\<close> on the frames read before the loop ends (camera error or the key q),
  each with its faces in order.
\<close>

definition capture_and_log :: "bool \<Rightarrow> conn \<Rightarrow> detection list list \<Rightarrow> session" where
  "capture_and_log send_to_chain c frames =
     fold (\<lambda>faces s. fold (log_face send_to_chain c) faces s) frames
       \<lparr>logged_today = {}, sent = []\<rparr>"

text \<open>The number of transactions submitted for an identity among the calls made.\<close>

fun is_send_for :: "string \<Rightarrow> wevent \<Rightarrow> bool" where
  "is_send_for name (SendRawTransaction n t h) = (n = name)"
| "is_send_for name _ = False"

definition sends_for :: "string \<Rightarrow> wevent list \<Rightarrow> nat" where
  "sends_for name evs = length (filter (is_send_for name) evs)"

section \<open>app.py: the dashboard session\<close>

text \<open>
  \<open>save_to_blockchain\<close> of app.py, with the fixed chain id 1337: whether it ends in
  \<open>st.success\<close>, and the calls it made.
\<close>

definition app_save_to_blockchain :: "string \<Rightarrow> string \<Rightarrow> chain \<Rightarrow> bool \<times> wevent list" where
  "app_save_to_blockchain name timestamp ch =
     (let h = hash_str name timestamp in
      case get_transaction_count ch of
        None \<Rightarrow> (False, [GetTransactionCount])
      | Some nonce \<Rightarrow>
     (case estimate_gas ch of
        None \<Rightarrow> (False, [GetTransactionCount, EstimateGas name timestamp h])
      | Some gas \<Rightarrow>
     if \<not> build_transaction ch
     then (False, [GetTransactionCount, EstimateGas name timestamp h,
                   BuildTransaction name timestamp h])
     else if \<not> sign_transaction ch
     then (False, [GetTransactionCount, EstimateGas name timestamp h,
                   BuildTransaction name timestamp h, SignTransaction])
     else
     (case send_raw_transaction ch of
        None \<Rightarrow>
          (False, [GetTransactionCount, EstimateGas name timestamp h,
                   BuildTransaction name timestamp h, SignTransaction,
                   SendRawTransaction name timestamp h])
      | Some tx_hash \<Rightarrow>
          (wait_for_transaction_receipt ch \<noteq> None,
           [GetTransactionCount, EstimateGas name timestamp h,
            BuildTransaction name timestamp h, SignTransaction,
            SendRawTransaction name timestamp h, WaitForReceipt]))))"

text \<open>
  An entry of \<open>st.session_state.session_entries\<close> and the session state. The webcam loop
  of app.py sends nothing to the chain: it files an entry for the dashboard, from which
  the browser sends it.
\<close>

record entry =
  entry_name :: string
  entry_timestamp :: string
  entry_hash :: string
  entry_tx :: "string option"

record app_state =
  run_webcam :: bool
  logged_users :: "string set"
  session_entries :: "entry list"

text \<open>The button \<open>Start Webcam\<close>, lines 144 to 147.\<close>

definition start_webcam :: "app_state \<Rightarrow> app_state" where
  "start_webcam st = st\<lparr>run_webcam := True, logged_users := {}, session_entries := []\<rparr>"

text \<open>
  The body of \<open>for face in faces\<close>, lines 169 to 189: the identity \<open>match_face\<close> returned
  and the text of the clock.
\<close>

definition app_face :: "string option \<times> string \<Rightarrow> app_state \<Rightarrow> app_state" where
  "app_face f st =
     (case given (fst f) of
        None \<Rightarrow> st
      | Some name \<Rightarrow>
          if name \<notin> logged_users st
          then st\<lparr>session_entries :=
                     session_entries st @
                       [\<lparr>entry_name = name, entry_timestamp = snd f,
                         entry_hash = sha256_hexdigest (name @ ''-'' @ snd f),
                         entry_tx = None\<rparr>],
                   logged_users := insert name (logged_users st)\<rparr>
          else st)"

definition app_frames :: "(string option \<times> string) list list \<Rightarrow> app_state \<Rightarrow> app_state" where
  "app_frames frames st = fold (\<lambda>faces s. fold app_face faces s) frames st"

section \<open>The reconciler as the specification words it\<close>

text \<open>
  The surviving transactions of a block range in scan order (blocks ascending, each
  block's transactions in their own order, kept when addressed to the contract and
  decoding to the append call), each with the number of its block; and the mapping that
  gives key \<open>k\<close> the confirmation time of the block of the \<open>k\<close>-th survivor. These two follow
  the specification, not the loop of \<open>main\<close>; C5 compares them with the loop.
\<close>

definition survivors_spec ::
  "node \<Rightarrow> (string \<Rightarrow> string option) \<Rightarrow> nat \<Rightarrow> int \<Rightarrow> int \<Rightarrow> (int \<times> tx) list" where
  "survivors_spec nd decode ca from_block to_block =
     concat (map (\<lambda>b. case get_block nd b of
                         None \<Rightarrow> []
                       | Some blk \<Rightarrow>
                           map (\<lambda>t. (b, t)) (filter (tx_is_log decode ca) (block_transactions blk)))
                 [from_block..to_block])"

definition reconcile_spec ::
  "node \<Rightarrow> (string \<Rightarrow> string option) \<Rightarrow> (int \<Rightarrow> datetime option) \<Rightarrow> nat \<Rightarrow> int \<Rightarrow> int
     \<Rightarrow> (nat \<rightharpoonup> datetime)" where
  "reconcile_spec nd decode fts ca from_block to_block k =
     (let sv = survivors_spec nd decode ca from_block to_block in
      if k < length sv
      then (case get_block nd (fst (sv ! k)) of
              None \<Rightarrow> None
            | Some blk \<Rightarrow> fts (block_timestamp blk))
      else None)"

section \<open>Fixtures of the specification's testable properties\<close>

text \<open>An instant of 1 December 2025, for the windows and the expected times.\<close>

definition dec1 :: "nat \<Rightarrow> nat \<Rightarrow> nat \<Rightarrow> datetime" where
  "dec1 H M S =
     \<lparr>year = 2025, month = 12, day = 1, hour = H, minute = M, second = S, microsecond = 0\<rparr>"

text \<open>A ledger with records at 20:18:59, 20:19:30 and 20:20:01.\<close>

definition fixture_three :: node where
  "fixture_three =
     \<lparr>is_connected = True, get_code = Some ''60'', totalRecords = Inr 3,
      getRecord = (\<lambda>i. if i = 0 then Some [''ann'', ''2025-12-01 20:18:59'', ''h0'']
                       else if i = 1 then Some [''bob'', ''2025-12-01 20:19:30'', ''h1'']
                       else if i = 2 then Some [''cy'', ''2025-12-01 20:20:01'', ''h2'']
                       else None),
      block_number = None, get_block = (\<lambda>b. None)\<rparr>"

text \<open>A ledger whose only record has a timestamp text that cannot be read.\<close>

definition fixture_garbage :: node where
  "fixture_garbage =
     \<lparr>is_connected = True, get_code = Some ''60'', totalRecords = Inr 1,
      getRecord = (\<lambda>i. if i = 0 then Some [''alice'', ''garbage'', ''h0''] else None),
      block_number = None, get_block = (\<lambda>b. None)\<rparr>"

text \<open>A ledger of two records where fetching index 0 fails.\<close>

definition fixture_gap :: node where
  "fixture_gap =
     \<lparr>is_connected = True, get_code = Some ''60'', totalRecords = Inr 2,
      getRecord = (\<lambda>i. if i = 1 then Some [''bob'', ''2025-12-01 20:19:30'', ''h1''] else None),
      block_number = None, get_block = (\<lambda>b. None)\<rparr>"

text \<open>
  What a run of \<open>main\<close> finds around it in the examples: noon of 1 December 2025 on the
  clock, the ledger of three records behind \<open>--rpc\<close>, an ABI file that loads.
\<close>

definition fixture_env :: env where
  "fixture_env =
     \<lparr>now = dec1 12 0 0, the_node = fixture_three, abi_loads = True,
      contract_address = Some 1, decode_function_input = (\<lambda>i. None),
      fromtimestamp = (\<lambda>t. None)\<rparr>"

text \<open>The command line with only \<open>--start\<close> and \<open>--end\<close> given.\<close>

definition args_range :: "string \<Rightarrow> string \<Rightarrow> args" where
  "args_range s e =
     \<lparr>start_arg = Some s, end_arg = Some e, date_arg = None, debug_arg = False,
      include_invalid_arg = False, use_block_times_arg = False, from_block_arg = 0,
      to_block_arg = Latest\<rparr>"

text \<open>The command line with only \<open>--date\<close> given.\<close>

definition args_date :: "string \<Rightarrow> args" where
  "args_date d =
     \<lparr>start_arg = None, end_arg = None, date_arg = Some d, debug_arg = False,
      include_invalid_arg = False, use_block_times_arg = False, from_block_arg = 0,
      to_block_arg = Latest\<rparr>"

section \<open>Properties\<close>

subsection \<open>The fallback search finds the leftmost occurrence\<close>






subsection \<open>Three texts, evaluated\<close>






lemma rx_datetime_garbage: "rx_datetime ''garbage'' = []"
  by code_simp

lemma strptime_garbage: "strptime_datetime ''garbage'' = None"
  unfolding strptime_datetime_def rx_datetime_garbage by simp

lemma re_search_garbage: "re_search ''garbage'' = None"
  by code_simp



lemma rec_dt_garbage: "rec_dt_of_text ''garbage'' = None"
  unfolding rec_dt_of_text_def strptime_garbage re_search_garbage by simp




subsection \<open>C6\<close>



subsection \<open>The loop of \<open>collect_records\<close>\<close>

lemma dt_le_refl: "dt_le t t"
  by (simp add: dt_le_def)

lemma unpack3_Some: "unpack3 raw = Some (a, b, c) \<longleftrightarrow> raw = [a, b, c]"
  by (cases raw rule: unpack3.cases) auto

lemma records_emit [simp]: "records (emit e st) = records st"
  and invalid_emit [simp]: "invalid_records (emit e st) = invalid_records st"
  and printed_emit [simp]: "printed (emit e st) = printed st @ [e]"
  by (simp_all add: emit_def)

lemma collect_step_records:
  "records (collect_step nd s e dbg inc btm i st) = records st \<and>
     \<not> (\<exists>name ts h t. getRecord nd i = Some [name, ts, h]
            \<and> resolved_time btm i ts = Some t \<and> dt_le s t \<and> dt_le t e)
   \<or> (\<exists>name ts h t. records (collect_step nd s e dbg inc btm i st) = records st @ [Rec i name ts h]
          \<and> getRecord nd i = Some [name, ts, h]
          \<and> resolved_time btm i ts = Some t \<and> dt_le s t \<and> dt_le t e)"
  by (auto simp: collect_step_def Let_def unpack3_Some split: option.splits prod.splits)

lemma collect_step_invalid:
  "r \<in> set (invalid_records (collect_step nd s e dbg inc btm i st)) \<Longrightarrow>
     r \<in> set (invalid_records st) \<or> (index r = i \<and> getRecord nd i \<noteq> None \<and> inc)"
  by (auto simp: collect_step_def Let_def split: option.splits prod.splits if_splits)

lemma collect_step_fetch_error:
  "PrintFetchError j \<in> set (printed (collect_step nd s e dbg inc btm i st)) \<longleftrightarrow>
     PrintFetchError j \<in> set (printed st) \<or> (j = i \<and> getRecord nd i = None)"
  by (auto simp: collect_step_def Let_def split: option.splits prod.splits)

lemma fold_upt_Suc: "fold f [0..<Suc n] st = f n (fold f [0..<n] st)"
  by simp

lemma collect_step_records_mem:
  "r \<in> set (records (collect_step nd s e dbg inc btm i st)) \<longleftrightarrow>
     r \<in> set (records st) \<or>
     (\<exists>name ts h t. r = Rec i name ts h \<and> getRecord nd i = Some [name, ts, h]
        \<and> resolved_time btm i ts = Some t \<and> dt_le s t \<and> dt_le t e)"
  by (auto simp: collect_step_def Let_def unpack3_Some split: option.splits prod.splits)

lemma loop_records_mem:
  "r \<in> set (records (fold (collect_step nd s e dbg inc btm) [0..<n]
                      \<lparr>records = [], invalid_records = [], printed = p\<rparr>)) \<longleftrightarrow>
     (\<exists>i name ts h t. r = Rec i name ts h \<and> i < n \<and> getRecord nd i = Some [name, ts, h]
        \<and> resolved_time btm i ts = Some t \<and> dt_le s t \<and> dt_le t e)"
proof -
  define K where "K i \<longleftrightarrow> (\<exists>name ts h t. r = Rec i name ts h \<and> getRecord nd i = Some [name, ts, h]
        \<and> resolved_time btm i ts = Some t \<and> dt_le s t \<and> dt_le t e)" for i
  have "r \<in> set (records (fold (collect_step nd s e dbg inc btm) [0..<n]
                      \<lparr>records = [], invalid_records = [], printed = p\<rparr>)) \<longleftrightarrow> (\<exists>i<n. K i)"
  proof (induction n)
    case 0
    then show ?case by simp
  next
    case (Suc n)
    have "(\<exists>i<Suc n. K i) \<longleftrightarrow> (\<exists>i<n. K i) \<or> K n"
      using less_Suc_eq by auto
    then show ?case
      unfolding fold_upt_Suc collect_step_records_mem Suc.IH K_def [symmetric] by simp
  qed
  also have "(\<exists>i<n. K i) \<longleftrightarrow>
     (\<exists>i name ts h t. r = Rec i name ts h \<and> i < n \<and> getRecord nd i = Some [name, ts, h]
        \<and> resolved_time btm i ts = Some t \<and> dt_le s t \<and> dt_le t e)"
    unfolding K_def by blast
  finally show ?thesis .
qed

lemma loop_records_below:
  assumes "r \<in> set (records (fold (collect_step nd s e dbg inc btm) [0..<n]
                      \<lparr>records = [], invalid_records = [], printed = p\<rparr>))"
  shows "index r < n"
proof -
  from assms obtain i name ts h where "r = Rec i name ts h" and "i < n"
    unfolding loop_records_mem by blast
  then show ?thesis by simp
qed

lemma loop_records_sorted:
  "sorted_wrt (<) (map index (records (fold (collect_step nd s e dbg inc btm) [0..<n]
                      \<lparr>records = [], invalid_records = [], printed = p\<rparr>)))"
proof (induction n)
  case 0
  then show ?case by simp
next
  case (Suc n)
  let ?st = "fold (collect_step nd s e dbg inc btm) [0..<n]
               \<lparr>records = [], invalid_records = [], printed = p\<rparr>"
  from collect_step_records [of nd s e dbg inc btm n ?st]
  consider "records (collect_step nd s e dbg inc btm n ?st) = records ?st"
    | name ts h where "records (collect_step nd s e dbg inc btm n ?st) = records ?st @ [Rec n name ts h]"
    by blast
  then show ?case
  proof cases
    case 1
    with Suc show ?thesis unfolding fold_upt_Suc by simp
  next
    case 2
    have "\<forall>x \<in> set (map index (records ?st)). x < n"
      using loop_records_below [of _ nd s e dbg inc btm n p] by auto
    with Suc show ?thesis unfolding fold_upt_Suc 2 by (simp add: sorted_wrt_append)
  qed
qed

lemma loop_invalid:
  "r \<in> set (invalid_records (fold (collect_step nd s e dbg inc btm) [0..<n]
                      \<lparr>records = [], invalid_records = [], printed = p\<rparr>)) \<Longrightarrow>
     index r < n \<and> getRecord nd (index r) \<noteq> None \<and> inc"
proof (induction n)
  case 0
  then show ?case by simp
next
  case (Suc n)
  from Suc.prems [unfolded fold_upt_Suc] show ?case
    by (auto dest!: collect_step_invalid Suc.IH)
qed

lemma loop_fetch_error:
  "PrintFetchError j \<in> set (printed (fold (collect_step nd s e dbg inc btm) [0..<n]
                      \<lparr>records = [], invalid_records = [], printed = [RpcTotalRecords]\<rparr>)) \<longleftrightarrow>
     j < n \<and> getRecord nd j = None"
proof (induction n)
  case 0
  then show ?case by simp
next
  case (Suc n)
  show ?case unfolding fold_upt_Suc collect_step_fetch_error Suc.IH
    using less_Suc_eq by auto
qed

lemma collect_records_Inr:
  "totalRecords nd = Inr n \<Longrightarrow>
     collect_records nd s e dbg inc btm =
       Inr (fold (collect_step nd s e dbg inc btm) [0..<n]
              \<lparr>records = [], invalid_records = [], printed = [RpcTotalRecords]\<rparr>)"
  by (simp add: collect_records_def)

subsection \<open>The fixtures, evaluated\<close>

lemma rx_datetime_201859:
  "rx_datetime ''2025-12-01 20:18:59'' =
     [((2025, 12, 1, 20, 18, 59), []), ((2025, 12, 1, 20, 18, 5), ''9'')]"
  by code_simp

lemma rx_datetime_201930:
  "rx_datetime ''2025-12-01 20:19:30'' =
     [((2025, 12, 1, 20, 19, 30), []), ((2025, 12, 1, 20, 19, 3), ''0'')]"
  by code_simp

lemma rx_datetime_202001:
  "rx_datetime ''2025-12-01 20:20:01'' =
     [((2025, 12, 1, 20, 20, 1), []), ((2025, 12, 1, 20, 20, 0), ''1'')]"
  by code_simp

lemma rec_dt_201859: "rec_dt_of_text ''2025-12-01 20:18:59'' = Some (dec1 20 18 59)"
  unfolding rec_dt_of_text_def strptime_datetime_def rx_datetime_201859
  by (simp add: make_datetime_def days_in_month_def dec1_def)

lemma rec_dt_201930: "rec_dt_of_text ''2025-12-01 20:19:30'' = Some (dec1 20 19 30)"
  unfolding rec_dt_of_text_def strptime_datetime_def rx_datetime_201930
  by (simp add: make_datetime_def days_in_month_def dec1_def)

lemma rec_dt_202001: "rec_dt_of_text ''2025-12-01 20:20:01'' = Some (dec1 20 20 1)"
  unfolding rec_dt_of_text_def strptime_datetime_def rx_datetime_202001
  by (simp add: make_datetime_def days_in_month_def dec1_def)

lemma dt_le_dec1:
  "dt_le (dec1 H M S) (dec1 H' M' S') \<longleftrightarrow> H < H' \<or> H = H' \<and> (M < M' \<or> M = M' \<and> S \<le> S')"
  by (auto simp: dt_le_def dt_key_def dec1_def)

lemma upt_3: "[0..<3] = [0, 1, 2]" and upt_2: "[0..<2] = [0, 1]" and upt_1: "[0..<1] = [0]"
  by (simp_all add: upt_rec)

lemma step_three_0:
  "collect_step fixture_three (dec1 20 19 0) (dec1 20 20 0) False False None 0
     \<lparr>records = [], invalid_records = [], printed = [RpcTotalRecords]\<rparr> =
     \<lparr>records = [], invalid_records = [], printed = [RpcTotalRecords, RpcGetRecord 0]\<rparr>"
  by (simp add: collect_step_def fixture_three_def emit_def resolved_time_def rec_dt_201859
        dt_le_dec1)

lemma step_three_1:
  "collect_step fixture_three (dec1 20 19 0) (dec1 20 20 0) False False None 1
     \<lparr>records = [], invalid_records = [], printed = [RpcTotalRecords, RpcGetRecord 0]\<rparr> =
     \<lparr>records = [Rec 1 ''bob'' ''2025-12-01 20:19:30'' ''h1''], invalid_records = [],
      printed = [RpcTotalRecords, RpcGetRecord 0, RpcGetRecord 1]\<rparr>"
  by (simp add: collect_step_def fixture_three_def emit_def resolved_time_def rec_dt_201930
        dt_le_dec1)

lemma step_three_2:
  "collect_step fixture_three (dec1 20 19 0) (dec1 20 20 0) False False None 2
     \<lparr>records = [Rec 1 ''bob'' ''2025-12-01 20:19:30'' ''h1''], invalid_records = [],
      printed = [RpcTotalRecords, RpcGetRecord 0, RpcGetRecord 1]\<rparr> =
     \<lparr>records = [Rec 1 ''bob'' ''2025-12-01 20:19:30'' ''h1''], invalid_records = [],
      printed = [RpcTotalRecords, RpcGetRecord 0, RpcGetRecord 1, RpcGetRecord 2]\<rparr>"
  by (simp add: collect_step_def fixture_three_def emit_def resolved_time_def rec_dt_202001
        dt_le_dec1)

lemma collect_three:
  "collect_records fixture_three (dec1 20 19 0) (dec1 20 20 0) False False None =
     Inr \<lparr>records = [Rec 1 ''bob'' ''2025-12-01 20:19:30'' ''h1''], invalid_records = [],
          printed = [RpcTotalRecords, RpcGetRecord 0, RpcGetRecord 1, RpcGetRecord 2]\<rparr>"
proof -
  have "totalRecords fixture_three = Inr 3" by (simp add: fixture_three_def)
  then show ?thesis
    unfolding collect_records_def
    by (simp only: sum.case upt_3 fold_simps comp_apply step_three_0 step_three_1 step_three_2)
qed

lemma collect_garbage_off:
  "collect_records fixture_garbage (dec1 20 19 0) (dec1 20 20 0) False False None =
     Inr \<lparr>records = [], invalid_records = [],
          printed = [RpcTotalRecords, RpcGetRecord 0, PrintSkip 0]\<rparr>"
proof -
  have "totalRecords fixture_garbage = Inr 1" by (simp add: fixture_garbage_def)
  moreover have
    "collect_step fixture_garbage (dec1 20 19 0) (dec1 20 20 0) False False None 0
       \<lparr>records = [], invalid_records = [], printed = [RpcTotalRecords]\<rparr> =
     \<lparr>records = [], invalid_records = [],
      printed = [RpcTotalRecords, RpcGetRecord 0, PrintSkip 0]\<rparr>"
    by (simp add: collect_step_def fixture_garbage_def emit_def resolved_time_def rec_dt_garbage)
  ultimately show ?thesis
    unfolding collect_records_def by (simp only: sum.case upt_1 fold_simps comp_apply)
qed

lemma collect_garbage_on:
  "collect_records fixture_garbage (dec1 20 19 0) (dec1 20 20 0) False True None =
     Inr \<lparr>records = [], invalid_records = [Rec 0 ''alice'' ''garbage'' ''h0''],
          printed = [RpcTotalRecords, RpcGetRecord 0, PrintSkip 0]\<rparr>"
proof -
  have "totalRecords fixture_garbage = Inr 1" by (simp add: fixture_garbage_def)
  moreover have
    "collect_step fixture_garbage (dec1 20 19 0) (dec1 20 20 0) False True None 0
       \<lparr>records = [], invalid_records = [], printed = [RpcTotalRecords]\<rparr> =
     \<lparr>records = [], invalid_records = [Rec 0 ''alice'' ''garbage'' ''h0''],
      printed = [RpcTotalRecords, RpcGetRecord 0, PrintSkip 0]\<rparr>"
    by (simp add: collect_step_def fixture_garbage_def emit_def resolved_time_def rec_dt_garbage)
  ultimately show ?thesis
    unfolding collect_records_def by (simp only: sum.case upt_1 fold_simps comp_apply)
qed

lemma collect_gap:
  "collect_records fixture_gap (dec1 21 0 0) (dec1 22 0 0) False True None =
     Inr \<lparr>records = [], invalid_records = [],
          printed = [RpcTotalRecords, RpcGetRecord 0, PrintFetchError 0, RpcGetRecord 1]\<rparr>"
proof -
  have "totalRecords fixture_gap = Inr 2" by (simp add: fixture_gap_def)
  moreover have
    "collect_step fixture_gap (dec1 21 0 0) (dec1 22 0 0) False True None 0
       \<lparr>records = [], invalid_records = [], printed = [RpcTotalRecords]\<rparr> =
     \<lparr>records = [], invalid_records = [],
      printed = [RpcTotalRecords, RpcGetRecord 0, PrintFetchError 0]\<rparr>"
    by (simp add: collect_step_def fixture_gap_def emit_def)
  moreover have
    "collect_step fixture_gap (dec1 21 0 0) (dec1 22 0 0) False True None 1
       \<lparr>records = [], invalid_records = [],
        printed = [RpcTotalRecords, RpcGetRecord 0, PrintFetchError 0]\<rparr> =
     \<lparr>records = [], invalid_records = [],
      printed = [RpcTotalRecords, RpcGetRecord 0, PrintFetchError 0, RpcGetRecord 1]\<rparr>"
    by (simp add: collect_step_def fixture_gap_def emit_def resolved_time_def rec_dt_201930
          dt_le_dec1)
  ultimately show ?thesis
    unfolding collect_records_def by (simp only: sum.case upt_2 fold_simps comp_apply)
qed

subsection \<open>C7\<close>

text \<open>
  C7. A record that was fetched and has a resolved time \<open>t\<close> is in the result of
  \<open>collect_records\<close> exactly when \<open>start_dt \<le> t \<le> end_dt\<close>; both bounds are inclusive, so a
  record whose time is \<open>start_dt\<close> itself, or \<open>end_dt\<close> itself, is in the result of a
  window that is not empty. On the ledger with records at 20:18:59, 20:19:30 and 20:20:01
  the window from 20:19:00 to 20:20:00 returns the record at 20:19:30 and no other.
\<close>

theorem C7_range_filter_inclusive:
  "(collect_records nd start_dt end_dt dbg inc btm = Inr st \<and> totalRecords nd = Inr n \<and> i < n
      \<and> getRecord nd i = Some [name, ts, h] \<and> resolved_time btm i ts = Some t
    \<longrightarrow> (Rec i name ts h \<in> set (records st)) = (dt_le start_dt t \<and> dt_le t end_dt))
   \<and> (collect_records nd start_dt end_dt dbg inc btm = Inr st \<and> totalRecords nd = Inr n \<and> i < n
      \<and> getRecord nd i = Some [name, ts, h] \<and> resolved_time btm i ts = Some start_dt
      \<and> dt_le start_dt end_dt
    \<longrightarrow> Rec i name ts h \<in> set (records st))
   \<and> (collect_records nd start_dt end_dt dbg inc btm = Inr st \<and> totalRecords nd = Inr n \<and> i < n
      \<and> getRecord nd i = Some [name, ts, h] \<and> resolved_time btm i ts = Some end_dt
      \<and> dt_le start_dt end_dt
    \<longrightarrow> Rec i name ts h \<in> set (records st))
   \<and> map_sum id records
        (collect_records fixture_three (dec1 20 19 0) (dec1 20 20 0) False False None) =
       Inr [Rec 1 ''bob'' ''2025-12-01 20:19:30'' ''h1'']"
proof -
  have gen: "(Rec i name ts h \<in> set (records st)) = (dt_le start_dt t' \<and> dt_le t' end_dt)"
    if "collect_records nd start_dt end_dt dbg inc btm = Inr st" "totalRecords nd = Inr n"
      "i < n" "getRecord nd i = Some [name, ts, h]" "resolved_time btm i ts = Some t'" for t'
  proof -
    from that(1,2) have st: "st = fold (collect_step nd start_dt end_dt dbg inc btm) [0..<n]
              \<lparr>records = [], invalid_records = [], printed = [RpcTotalRecords]\<rparr>"
      by (simp add: collect_records_Inr)
    show ?thesis unfolding st loop_records_mem using that(3,4,5) by auto
  qed
  show ?thesis
    using gen [of t] gen [of start_dt] gen [of end_dt] dt_le_refl
    by (simp add: collect_three)
qed

theorem C7_range_filter_inclusive_witness:
  "collect_records fixture_three (dec1 20 19 0) (dec1 20 20 0) False False None =
     Inr \<lparr>records = [Rec 1 ''bob'' ''2025-12-01 20:19:30'' ''h1''], invalid_records = [],
          printed = [RpcTotalRecords, RpcGetRecord 0, RpcGetRecord 1, RpcGetRecord 2]\<rparr>
   \<and> totalRecords fixture_three = Inr 3 \<and> (1::nat) < 3
   \<and> getRecord fixture_three 1 = Some [''bob'', ''2025-12-01 20:19:30'', ''h1'']
   \<and> resolved_time None 1 ''2025-12-01 20:19:30'' = Some (dec1 20 19 30)
   \<and> dt_le (dec1 20 19 0) (dec1 20 19 30) \<and> dt_le (dec1 20 19 30) (dec1 20 20 0)
   \<and> Rec 1 ''bob'' ''2025-12-01 20:19:30'' ''h1'' \<in>
       set (records \<lparr>records = [Rec 1 ''bob'' ''2025-12-01 20:19:30'' ''h1''],
                     invalid_records = [],
                     printed = [RpcTotalRecords, RpcGetRecord 0, RpcGetRecord 1, RpcGetRecord 2]\<rparr>)"
proof -
  have a: "totalRecords fixture_three = Inr 3"
    and b: "getRecord fixture_three 1 = Some [''bob'', ''2025-12-01 20:19:30'', ''h1'']"
    by (simp_all add: fixture_three_def)
  have c: "resolved_time None 1 ''2025-12-01 20:19:30'' = Some (dec1 20 19 30)"
    by (simp add: resolved_time_def rec_dt_201930)
  have d: "dt_le (dec1 20 19 0) (dec1 20 19 30)" "dt_le (dec1 20 19 30) (dec1 20 20 0)"
    by (simp_all add: dt_le_dec1)
  from C7_range_filter_inclusive
         [of fixture_three "dec1 20 19 0" "dec1 20 20 0" False False None _ 3 1
            "''bob''" "''2025-12-01 20:19:30''" "''h1''" "dec1 20 19 30"]
       collect_three a b c d
  show ?thesis by simp
qed

subsection \<open>C8\<close>

text \<open>
  A record whose time cannot be resolved never reaches the result, with any flags.
\<close>

lemma unresolved_not_in_records:
  assumes "collect_records nd start_dt end_dt dbg inc btm = Inr st"
    and "getRecord nd i = Some [name, ts, h]" and "resolved_time btm i ts = None"
  shows "Rec i name' ts' h' \<notin> set (records st)"
proof -
  from assms(1) obtain n where "totalRecords nd = Inr n"
    by (auto simp: collect_records_def split: sum.splits)
  with assms(1) have st: "st = fold (collect_step nd start_dt end_dt dbg inc btm) [0..<n]
              \<lparr>records = [], invalid_records = [], printed = [RpcTotalRecords]\<rparr>"
    by (simp add: collect_records_Inr)
  show ?thesis unfolding st loop_records_mem using assms(2,3) by auto
qed

text \<open>
  C8. On the ledger whose one record has the timestamp text \<open>garbage\<close>, without
  \<open>--include-invalid\<close>, \<open>collect_records\<close> returns the record in neither list: the invalid
  collection stays empty. With the flag the same record is in \<open>invalid_records\<close>. The flag
  decides whether the record is collected, not only whether the collection is shown.
\<close>

theorem C8_unresolved_record_not_collected:
  "resolved_time None 0 ''garbage'' = None
   \<and> collect_records fixture_garbage (dec1 20 19 0) (dec1 20 20 0) False False None =
       Inr \<lparr>records = [], invalid_records = [],
            printed = [RpcTotalRecords, RpcGetRecord 0, PrintSkip 0]\<rparr>
   \<and> collect_records fixture_garbage (dec1 20 19 0) (dec1 20 20 0) False True None =
       Inr \<lparr>records = [], invalid_records = [Rec 0 ''alice'' ''garbage'' ''h0''],
            printed = [RpcTotalRecords, RpcGetRecord 0, PrintSkip 0]\<rparr>"
  by (simp add: collect_garbage_off collect_garbage_on resolved_time_def rec_dt_garbage)

subsection \<open>C2\<close>

text \<open>
  C2, as the code has it. \<open>collect_records\<close> returns \<open>(records, invalid_records)\<close> whenever
  the count can be read, whatever the single fetches do. A failure fetching index \<open>i\<close> is
  a printed warning for \<open>i\<close> and nothing else: no entry of either returned list has the
  index of a failed fetch. The returned records are the fetched records of three fields
  whose resolved time lies in the window, and no others, in ascending order of index.
\<close>

theorem C2_scan_isolates_fetch_failures:
  "totalRecords nd = Inr n \<Longrightarrow>
     \<exists>st. collect_records nd s e dbg inc btm = Inr st
        \<and> (\<forall>j. PrintFetchError j \<in> set (printed st) \<longleftrightarrow> j < n \<and> getRecord nd j = None)
        \<and> (\<forall>r. r \<in> set (records st) \<or> r \<in> set (invalid_records st)
                \<longrightarrow> index r < n \<and> getRecord nd (index r) \<noteq> None)
        \<and> sorted_wrt (<) (map index (records st))
        \<and> (\<forall>r. r \<in> set (records st) \<longleftrightarrow>
                (\<exists>i name ts h t. r = Rec i name ts h \<and> i < n
                    \<and> getRecord nd i = Some [name, ts, h]
                    \<and> resolved_time btm i ts = Some t \<and> dt_le s t \<and> dt_le t e))"
proof -
  assume n: "totalRecords nd = Inr n"
  let ?st = "fold (collect_step nd s e dbg inc btm) [0..<n]
              \<lparr>records = [], invalid_records = [], printed = [RpcTotalRecords]\<rparr>"
  have 1: "collect_records nd s e dbg inc btm = Inr ?st"
    using n by (rule collect_records_Inr)
  have 2: "\<forall>j. PrintFetchError j \<in> set (printed ?st) \<longleftrightarrow> j < n \<and> getRecord nd j = None"
    by (simp only: loop_fetch_error) simp
  have 3: "\<forall>r. r \<in> set (records ?st) \<or> r \<in> set (invalid_records ?st)
                \<longrightarrow> index r < n \<and> getRecord nd (index r) \<noteq> None"
  proof (intro allI impI)
    fix r assume "r \<in> set (records ?st) \<or> r \<in> set (invalid_records ?st)"
    then show "index r < n \<and> getRecord nd (index r) \<noteq> None"
    proof
      assume "r \<in> set (records ?st)"
      then show ?thesis unfolding loop_records_mem by auto
    next
      assume "r \<in> set (invalid_records ?st)"
      then show ?thesis using loop_invalid by blast
    qed
  qed
  have 4: "sorted_wrt (<) (map index (records ?st))"
    by (rule loop_records_sorted)
  have 5: "\<forall>r. r \<in> set (records ?st) \<longleftrightarrow>
                (\<exists>i name ts h t. r = Rec i name ts h \<and> i < n
                    \<and> getRecord nd i = Some [name, ts, h]
                    \<and> resolved_time btm i ts = Some t \<and> dt_le s t \<and> dt_le t e)"
    by (simp only: loop_records_mem) simp
  from 1 2 3 4 5 show ?thesis by blast
qed

theorem C2_scan_isolates_fetch_failures_witness:
  "totalRecords fixture_gap = Inr 2
   \<and> (\<exists>st. collect_records fixture_gap (dec1 21 0 0) (dec1 22 0 0) False True None = Inr st
          \<and> PrintFetchError 0 \<in> set (printed st)
          \<and> PrintFetchError 1 \<notin> set (printed st)
          \<and> sorted_wrt (<) (map index (records st)))"
proof -
  have n: "totalRecords fixture_gap = Inr 2" by (simp add: fixture_gap_def)
  have g: "getRecord fixture_gap 0 = None" "getRecord fixture_gap 1 \<noteq> None"
    by (simp_all add: fixture_gap_def)
  from C2_scan_isolates_fetch_failures
         [OF n, of "dec1 21 0 0" "dec1 22 0 0" False True None]
  obtain st where st: "collect_records fixture_gap (dec1 21 0 0) (dec1 22 0 0) False True None = Inr st"
    and pr: "\<forall>j. PrintFetchError j \<in> set (printed st) \<longleftrightarrow> j < 2 \<and> getRecord fixture_gap j = None"
    and so: "sorted_wrt (<) (map index (records st))"
    by blast
  from pr g have "PrintFetchError 0 \<in> set (printed st)" "PrintFetchError 1 \<notin> set (printed st)"
    by simp_all
  with n st so show ?thesis by blast
qed

text \<open>
  The claim as written fails on the ledger of two records where fetching index 0 fails
  and index 1 holds a record of 20:19:30, read with the window 21:00:00 to 22:00:00 and
  \<open>--include-invalid\<close>: the returned pair is two empty lists. Nothing in it stands for the
  failure at index 0, and the fetched record 1 is not in the returned sequence.
\<close>

theorem C2_counterexample:
  "getRecord fixture_gap 0 = None
   \<and> getRecord fixture_gap 1 = Some [''bob'', ''2025-12-01 20:19:30'', ''h1'']
   \<and> map_sum id (\<lambda>st. (records st, invalid_records st))
        (collect_records fixture_gap (dec1 21 0 0) (dec1 22 0 0) False True None) =
       Inr ([], [])"
proof -
  have "getRecord fixture_gap 0 = None"
    and "getRecord fixture_gap 1 = Some [''bob'', ''2025-12-01 20:19:30'', ''h1'']"
    by (simp_all add: fixture_gap_def)
  then show ?thesis by (simp add: collect_gap)
qed

end
